theory Spec2Isabelle
  imports Main
begin

section \<open>ExtensionViewHost\<close>

text \<open>
  A shallow embedding of \<^verbatim>\<open>chrome/browser/extensions/extension_view_host.cc\<close>.

  Conventions of the embedding:
  \<^item> an object is known by its identity (a number); a C++ pointer to it is an
    \<open>option\<close>, with \<open>None\<close> for \<^verbatim>\<open>NULL\<close>;
  \<^item> a member whose C++ name ends in an underscore (\<^verbatim>\<open>view_\<close>,
    \<^verbatim>\<open>associated_web_contents_\<close>) loses the underscore, which Isabelle does not
    accept at the end of a name;
  \<^item> a member function takes the host as an argument and returns the host as it is
    after the call;
  \<^item> every call the host makes on a collaborator (the browser, the platform view, the
    render view host, the content layer) is appended to the field \<open>calls\<close> of the
    host, in the order the code makes them; what a browser answers is given by the
    function fields of its record;
  \<^item> a failed \<^verbatim>\<open>DCHECK\<close>, a reached \<^verbatim>\<open>NOTREACHED\<close> and the dereference of a null
    pointer are values of the type \<open>error\<close>; a function that can fail returns
    \<open>error + result\<close>.
\<close>

subsection \<open>Types declared outside this file\<close>

text \<open>\<^verbatim>\<open>content::WebContents\<close>, by identity.\<close>

type_synonym WebContents = nat

text \<open>
  \<^verbatim>\<open>ViewType\<close>: the three enumerators the file names, and one constructor for
  every other enumerator of the enumeration.
\<close>

datatype ViewType =
    VIEW_TYPE_EXTENSION_DIALOG
  | VIEW_TYPE_EXTENSION_INFOBAR
  | VIEW_TYPE_EXTENSION_POPUP
  | VIEW_TYPE_OTHER nat

text \<open>
  \<^verbatim>\<open>WindowOpenDisposition\<close>: the seven enumerators the switch of
  \<^verbatim>\<open>OpenURLFromTab\<close> names, and one constructor for every other enumerator.
\<close>

datatype WindowOpenDisposition =
    SINGLETON_TAB
  | NEW_FOREGROUND_TAB
  | NEW_BACKGROUND_TAB
  | NEW_POPUP
  | NEW_WINDOW
  | SAVE_TO_DISK
  | OFF_THE_RECORD
  | OTHER_DISPOSITION nat

text \<open>\<^verbatim>\<open>content::OpenURLParams\<close>: the target and the disposition.\<close>

record OpenURLParams =
  url :: string
  disposition :: WindowOpenDisposition

text \<open>
  The type of a keyboard event: \<^verbatim>\<open>RawKeyDown\<close> is the one the file names; the other
  constructors stand for the other keyboard event types (key down, key up, character)
  and for any further enumerator.
\<close>

datatype WebInputEventType = RawKeyDown | KeyDown | KeyUp | Char | OTHER_EVENT_TYPE nat

text \<open>\<^verbatim>\<open>content::NativeWebKeyboardEvent\<close>: the fields the file reads, and the modifiers.\<close>

record NativeWebKeyboardEvent =
  type :: WebInputEventType
  modifiers :: int
  windowsKeyCode :: int

text \<open>
  Modelled from the spec: \<^verbatim>\<open>ui::VKEY_ESCAPE\<close>, the key code of the Escape key
  (\<^verbatim>\<open>ui/events/keycodes/keyboard_codes.h\<close> is not among the sources). No theorem below
  depends on its value.
\<close>

definition VKEY_ESCAPE :: int where
  "VKEY_ESCAPE = 0x1B"

text \<open>
  \<^verbatim>\<open>Browser\<close>: what the parent browser answers to the two calls of the host that
  return a value. \<^verbatim>\<open>bool* is_keyboard_shortcut\<close> is passed as the pointer with the
  value it points to (\<open>None\<close> for a null pointer), and comes back with the value the
  browser left there.
\<close>

record Browser =
  Browser_OpenURL :: "OpenURLParams \<Rightarrow> WebContents option"
  Browser_PreHandleKeyboardEvent ::
    "WebContents option \<Rightarrow> NativeWebKeyboardEvent \<Rightarrow> bool option \<Rightarrow> bool \<times> bool option"

text \<open>
  The platform view (\<^verbatim>\<open>ExtensionViewViews\<close>, \<^verbatim>\<open>ExtensionViewMac\<close>,
  \<^verbatim>\<open>ExtensionViewGtk\<close>): the browser it was built with, which \<^verbatim>\<open>browser()\<close> returns.
\<close>

record PlatformExtensionView =
  browser :: "Browser option"

text \<open>The resources the file reads from the resource bundle.\<close>

datatype ResourceId = IDR_EXTENSIONS_INFOBAR_CSS | IDR_OTHER nat

text \<open>The preprocessor's choice of a toolkit.\<close>

datatype Toolkit = TOOLKIT_VIEWS | OS_MACOSX | TOOLKIT_GTK | NO_TOOLKIT

text \<open>
  What is fixed when the program is built: whether \<^verbatim>\<open>DCHECK\<close> and \<^verbatim>\<open>NOTREACHED\<close> are
  compiled in (a debug build) or compiled out, the toolkit, and the raw data of the
  resources (\<^verbatim>\<open>ResourceBundle::GetSharedInstance().GetRawDataResource\<close>). The
  resources are embedded at build time, so the function-local static of
  \<^verbatim>\<open>InsertInfobarCSS\<close> holds the same string on every call.
\<close>

record BuildConfig =
  dcheck_is_on :: bool
  toolkit :: Toolkit
  GetRawDataResource :: "ResourceId \<Rightarrow> string"

datatype error = DCHECK_failure | NOTREACHED_failure | NULL_dereference

subsection \<open>The calls the host makes on its collaborators\<close>

datatype Call =
    BrowserOpenURL OpenURLParams
  | BrowserPreHandleKeyboardEvent "WebContents option" NativeWebKeyboardEvent
  | BrowserHandleKeyboardEvent "WebContents option" NativeWebKeyboardEvent
  | ViewHandleKeyboardEvent NativeWebKeyboardEvent
  | RenderViewHostInsertCSS string string
  | HostClose
  | WebContentsAddObserver WebContents
  | WebContentsRemoveObserver WebContents

subsection \<open>The host and its observer\<close>

text \<open>
  \<^verbatim>\<open>ExtensionViewHost::AssociatedWebContentsObserver\<close>: the content it observes (the
  argument of the base class \<^verbatim>\<open>WebContentsObserver\<close>). Its member \<^verbatim>\<open>host_\<close> is the
  host that owns it, the one host of this model.
\<close>

record AssociatedWebContentsObserver =
  web_contents :: WebContents

text \<open>
  \<^verbatim>\<open>ExtensionViewHost\<close>, with the two members of its base class \<^verbatim>\<open>ExtensionHost\<close>
  that the file reads (\<^verbatim>\<open>extension_host_type()\<close>, \<^verbatim>\<open>host_contents()\<close>). The two
  \<^verbatim>\<open>scoped_ptr\<close> members own what they point to, so they hold the object itself.
\<close>

record ExtensionViewHost =
  extension_host_type :: ViewType
  host_contents :: "WebContents option"
  view :: "PlatformExtensionView option"
  associated_web_contents :: "WebContents option"
  associated_web_contents_observer :: "AssociatedWebContentsObserver option"
  calls :: "Call list"

definition call :: "Call \<Rightarrow> ExtensionViewHost \<Rightarrow> ExtensionViewHost" where
  "call c h = h\<lparr>calls := calls h @ [c]\<rparr>"

text \<open>
  The constructor: the extension, the site instance and the URL go to the base class
  and are not read in this file; the base class sets the host type and creates the
  host's own contents; \<^verbatim>\<open>associated_web_contents_\<close> starts as \<^verbatim>\<open>NULL\<close> and both
  \<^verbatim>\<open>scoped_ptr\<close> members start empty. The \<^verbatim>\<open>DCHECK\<close> admits the three view-bound
  host types only.
\<close>

definition new_ExtensionViewHost ::
  "BuildConfig \<Rightarrow> WebContents option \<Rightarrow> ViewType \<Rightarrow> error + ExtensionViewHost" where
  "new_ExtensionViewHost bld contents host_type =
     (if dcheck_is_on bld \<and>
         \<not> (host_type = VIEW_TYPE_EXTENSION_DIALOG \<or>
            host_type = VIEW_TYPE_EXTENSION_INFOBAR \<or>
            host_type = VIEW_TYPE_EXTENSION_POPUP)
      then Inl DCHECK_failure
      else Inr \<lparr>extension_host_type = host_type,
                host_contents = contents,
                view = None,
                associated_web_contents = None,
                associated_web_contents_observer = None,
                calls = []\<rparr>)"

text \<open>
  \<^verbatim>\<open>CreateView\<close>: on each of the three toolkits the host comes to own a view built
  with the given browser; with no toolkit the code reaches \<^verbatim>\<open>NOTREACHED\<close> and leaves
  \<^verbatim>\<open>view_\<close> as it was.
\<close>

definition CreateView ::
  "BuildConfig \<Rightarrow> Browser option \<Rightarrow> ExtensionViewHost \<Rightarrow> error + ExtensionViewHost" where
  "CreateView bld b h =
     (case toolkit bld of
        NO_TOOLKIT \<Rightarrow> if dcheck_is_on bld then Inl NOTREACHED_failure else Inr h
      | _ \<Rightarrow> Inr (h\<lparr>view := Some \<lparr>browser = b\<rparr>\<rparr>))"

text \<open>
  \<^verbatim>\<open>scoped_ptr::reset\<close> on \<^verbatim>\<open>associated_web_contents_observer_\<close>: the member takes
  the new observer and the observer it held is deleted. The destructor of the base
  class \<^verbatim>\<open>WebContentsObserver\<close> takes the observer off the content it observed.
\<close>

definition associated_web_contents_observer_reset ::
  "AssociatedWebContentsObserver option \<Rightarrow> ExtensionViewHost \<Rightarrow> ExtensionViewHost" where
  "associated_web_contents_observer_reset p h =
     (case associated_web_contents_observer h of
        None \<Rightarrow> h\<lparr>associated_web_contents_observer := p\<rparr>
      | Some old \<Rightarrow>
          call (WebContentsRemoveObserver (web_contents old))
            (h\<lparr>associated_web_contents_observer := p\<rparr>))"

text \<open>
  \<^verbatim>\<open>new AssociatedWebContentsObserver(this, web_contents)\<close>: the constructor of the
  base class \<^verbatim>\<open>WebContentsObserver\<close> puts the new observer on the content.
\<close>

definition new_AssociatedWebContentsObserver ::
  "WebContents \<Rightarrow> ExtensionViewHost \<Rightarrow> AssociatedWebContentsObserver \<times> ExtensionViewHost" where
  "new_AssociatedWebContentsObserver wc h =
     (\<lparr>web_contents = wc\<rparr>, call (WebContentsAddObserver wc) h)"

definition SetAssociatedWebContents ::
  "WebContents option \<Rightarrow> ExtensionViewHost \<Rightarrow> ExtensionViewHost" where
  "SetAssociatedWebContents wc h =
     (let h1 = h\<lparr>associated_web_contents := wc\<rparr> in
      case associated_web_contents h1 of
        Some c \<Rightarrow>
          (let (obs, h2) = new_AssociatedWebContentsObserver c h1
           in associated_web_contents_observer_reset (Some obs) h2)
      | None \<Rightarrow> associated_web_contents_observer_reset None h1)"

text \<open>
  \<^verbatim>\<open>AssociatedWebContentsObserver::WebContentsDestroyed\<close>: the observer clears the
  association of its host.
\<close>

definition WebContentsDestroyed ::
  "AssociatedWebContentsObserver \<Rightarrow> WebContents \<Rightarrow> ExtensionViewHost \<Rightarrow> ExtensionViewHost" where
  "WebContentsDestroyed obs wc h = SetAssociatedWebContents None h"

text \<open>
  Modelled from the spec: the destruction of a content object, as the host sees it.
  The base class \<^verbatim>\<open>WebContentsObserver\<close> and the content layer that notifies it are not
  among the sources; the spec says that the host observes the referenced object for
  destruction, from the moment the reference is set until it is cleared. So the
  destruction of \<open>wc\<close> calls \<^verbatim>\<open>WebContentsDestroyed\<close> on the observer the host holds,
  if that observer is on \<open>wc\<close>, and does nothing to the host otherwise.
\<close>

definition DestroyWebContents :: "WebContents \<Rightarrow> ExtensionViewHost \<Rightarrow> ExtensionViewHost" where
  "DestroyWebContents wc h =
     (case associated_web_contents_observer h of
        None \<Rightarrow> h
      | Some obs \<Rightarrow> if web_contents obs = wc then WebContentsDestroyed obs wc h else h)"

definition UnhandledKeyboardEvent ::
  "BuildConfig \<Rightarrow> ExtensionViewHost \<Rightarrow> WebContents option \<Rightarrow> NativeWebKeyboardEvent
     \<Rightarrow> error + ExtensionViewHost" where
  "UnhandledKeyboardEvent bld h source event =
     (case view h of
        None \<Rightarrow> Inl NULL_dereference
      | Some v \<Rightarrow>
          (case browser v of
             Some b \<Rightarrow> Inr (call (BrowserHandleKeyboardEvent source event) h)
           | None \<Rightarrow>
               if toolkit bld = TOOLKIT_VIEWS
               then Inr (call (ViewHandleKeyboardEvent event) h)
               else Inr h))"

text \<open>
  \<^verbatim>\<open>InsertInfobarCSS\<close>: the raw data of the style sheet resource goes to the render
  view host, with an empty frame path (\<^verbatim>\<open>string16()\<close>).
\<close>

definition InsertInfobarCSS :: "BuildConfig \<Rightarrow> ExtensionViewHost \<Rightarrow> ExtensionViewHost" where
  "InsertInfobarCSS bld h =
     (let css = GetRawDataResource bld IDR_EXTENSIONS_INFOBAR_CSS
      in call (RenderViewHostInsertCSS [] css) h)"

definition OnDocumentAvailable :: "BuildConfig \<Rightarrow> ExtensionViewHost \<Rightarrow> ExtensionViewHost" where
  "OnDocumentAvailable bld h =
     (if extension_host_type h = VIEW_TYPE_EXTENSION_INFOBAR
      then InsertInfobarCSS bld h
      else h)"

definition IsBackgroundPage :: "BuildConfig \<Rightarrow> ExtensionViewHost \<Rightarrow> error + bool" where
  "IsBackgroundPage bld h =
     (if dcheck_is_on bld \<and> view h = None then Inl DCHECK_failure else Inr False)"

text \<open>
  \<^verbatim>\<open>OpenURLFromTab\<close>: the seven case labels share one body; every other disposition
  takes the default branch, which does not read \<^verbatim>\<open>view_\<close>.
\<close>

definition OpenURLFromTab ::
  "ExtensionViewHost \<Rightarrow> WebContents option \<Rightarrow> OpenURLParams
     \<Rightarrow> error + (WebContents option \<times> ExtensionViewHost)" where
  "OpenURLFromTab h source params =
     (let whitelisted =
        (case view h of
           None \<Rightarrow> Inl NULL_dereference
         | Some v \<Rightarrow>
             (case browser v of
                Some b \<Rightarrow> Inr (Browser_OpenURL b params, call (BrowserOpenURL params) h)
              | None \<Rightarrow> Inr (None, h)))
      in case disposition params of
           SINGLETON_TAB \<Rightarrow> whitelisted
         | NEW_FOREGROUND_TAB \<Rightarrow> whitelisted
         | NEW_BACKGROUND_TAB \<Rightarrow> whitelisted
         | NEW_POPUP \<Rightarrow> whitelisted
         | NEW_WINDOW \<Rightarrow> whitelisted
         | SAVE_TO_DISK \<Rightarrow> whitelisted
         | OFF_THE_RECORD \<Rightarrow> whitelisted
         | _ \<Rightarrow> Inr (None, h))"

text \<open>
  \<^verbatim>\<open>PreHandleKeyboardEvent\<close> returns its \<^verbatim>\<open>bool\<close>, the pointer
  \<^verbatim>\<open>is_keyboard_shortcut\<close> with the value left there, and the host. Writing through a
  null \<^verbatim>\<open>is_keyboard_shortcut\<close> fails; in the first branch the \<^verbatim>\<open>DCHECK\<close> comes
  before the write.
\<close>

definition PreHandleKeyboardEvent ::
  "BuildConfig \<Rightarrow> ExtensionViewHost \<Rightarrow> WebContents option \<Rightarrow> NativeWebKeyboardEvent
     \<Rightarrow> bool option \<Rightarrow> error + (bool \<times> bool option \<times> ExtensionViewHost)" where
  "PreHandleKeyboardEvent bld h source event is_keyboard_shortcut =
     (if extension_host_type h = VIEW_TYPE_EXTENSION_POPUP \<and>
         type event = RawKeyDown \<and>
         windowsKeyCode event = VKEY_ESCAPE
      then
        (case is_keyboard_shortcut of
           None \<Rightarrow> Inl (if dcheck_is_on bld then DCHECK_failure else NULL_dereference)
         | Some _ \<Rightarrow> Inr (False, Some True, h))
      else
        (case view h of
           None \<Rightarrow> Inl NULL_dereference
         | Some v \<Rightarrow>
             (case browser v of
                Some b \<Rightarrow>
                  (let (r, p) = Browser_PreHandleKeyboardEvent b source event is_keyboard_shortcut
                   in Inr (r, p, call (BrowserPreHandleKeyboardEvent source event) h))
              | None \<Rightarrow>
                  (case is_keyboard_shortcut of
                     None \<Rightarrow> Inl NULL_dereference
                   | Some _ \<Rightarrow> Inr (False, Some False, h)))))"

text \<open>
  Modelled from the spec: \<^verbatim>\<open>ExtensionHost::Close\<close>, of the base class, which is not
  among the sources. The host asks to be closed; the request is recorded as a call.
\<close>

definition Close :: "ExtensionViewHost \<Rightarrow> ExtensionViewHost" where
  "Close h = call HostClose h"

definition HandleKeyboardEvent ::
  "BuildConfig \<Rightarrow> ExtensionViewHost \<Rightarrow> WebContents option \<Rightarrow> NativeWebKeyboardEvent
     \<Rightarrow> error + ExtensionViewHost" where
  "HandleKeyboardEvent bld h source event =
     (if extension_host_type h = VIEW_TYPE_EXTENSION_POPUP \<and>
         type event = RawKeyDown \<and>
         windowsKeyCode event = VKEY_ESCAPE
      then Inr (Close h)
      else UnhandledKeyboardEvent bld h source event)"

definition GetAssociatedWebContents :: "ExtensionViewHost \<Rightarrow> WebContents option" where
  "GetAssociatedWebContents h = associated_web_contents h"

definition GetVisibleWebContents :: "ExtensionViewHost \<Rightarrow> WebContents option" where
  "GetVisibleWebContents h =
     (if associated_web_contents h \<noteq> None then associated_web_contents h
      else if extension_host_type h = VIEW_TYPE_EXTENSION_POPUP then host_contents h
      else None)"

text \<open>
  The relation between the two members that \<^verbatim>\<open>SetAssociatedWebContents\<close> writes: the
  host holds an observer exactly when it holds associated contents, and the observer is
  on those contents.
\<close>

definition observes_associated :: "ExtensionViewHost \<Rightarrow> bool" where
  "observes_associated h =
     (map_option web_contents (associated_web_contents_observer h) = associated_web_contents h)"

subsection \<open>Hosts, browsers and events to run the model on\<close>

definition a_browser :: Browser where
  "a_browser =
     \<lparr>Browser_OpenURL = (\<lambda>p. Some 7),
      Browser_PreHandleKeyboardEvent = (\<lambda>s e p. (True, Some True))\<rparr>"

definition a_host :: "ViewType \<Rightarrow> Browser option \<Rightarrow> ExtensionViewHost" where
  "a_host t b =
     \<lparr>extension_host_type = t,
      host_contents = Some 1,
      view = Some \<lparr>browser = b\<rparr>,
      associated_web_contents = None,
      associated_web_contents_observer = None,
      calls = []\<rparr>"

definition a_build :: BuildConfig where
  "a_build = \<lparr>dcheck_is_on = True, toolkit = TOOLKIT_VIEWS, GetRawDataResource = (\<lambda>r. ''css'')\<rparr>"

definition key :: "WebInputEventType \<Rightarrow> int \<Rightarrow> NativeWebKeyboardEvent" where
  "key t c = \<lparr>type = t, modifiers = 0, windowsKeyCode = c\<rparr>"

text \<open>
  The hosts \<open>a_host t b\<close> of the three view-bound types are what the constructor
  followed by \<^verbatim>\<open>CreateView\<close> gives.
\<close>

lemma a_host_constructed:
  assumes "t = VIEW_TYPE_EXTENSION_DIALOG \<or> t = VIEW_TYPE_EXTENSION_INFOBAR \<or>
           t = VIEW_TYPE_EXTENSION_POPUP"
  shows "\<exists>h. new_ExtensionViewHost a_build (Some 1) t = Inr h \<and>
             CreateView a_build b h = Inr (a_host t b)"
  using assms
  by (auto simp: new_ExtensionViewHost_def CreateView_def a_build_def a_host_def)

subsection \<open>Navigation requests\<close>

text \<open>
  C1. A disposition outside the allow-list (singleton tab, new foreground tab, new
  background tab, new popup, new window, save to disk, off the record) makes
  \<^verbatim>\<open>OpenURLFromTab\<close> return \<^verbatim>\<open>NULL\<close>, whatever the host is: with a browser, without
  one, and even without a view. No call is made on any collaborator.
\<close>

theorem OpenURLFromTab_outside_whitelist:
  assumes "disposition params \<notin>
             {SINGLETON_TAB, NEW_FOREGROUND_TAB, NEW_BACKGROUND_TAB, NEW_POPUP,
              NEW_WINDOW, SAVE_TO_DISK, OFF_THE_RECORD}"
  shows "OpenURLFromTab h source params = Inr (None, h)"
  using assms
  by (cases "disposition params") (simp_all add: OpenURLFromTab_def)

theorem OpenURLFromTab_outside_whitelist_witness:
  "OpenURLFromTab (a_host VIEW_TYPE_EXTENSION_POPUP (Some a_browser)) (Some 2)
       \<lparr>url = ''http://a/'', disposition = OTHER_DISPOSITION 0\<rparr>
     = Inr (None, a_host VIEW_TYPE_EXTENSION_POPUP (Some a_browser))
   \<and> OpenURLFromTab (a_host VIEW_TYPE_EXTENSION_DIALOG None) None
       \<lparr>url = ''http://a/'', disposition = OTHER_DISPOSITION 3\<rparr>
     = Inr (None, a_host VIEW_TYPE_EXTENSION_DIALOG None)"
  using
    OpenURLFromTab_outside_whitelist
      [of "\<lparr>url = ''http://a/'', disposition = OTHER_DISPOSITION 0\<rparr>"
          "a_host VIEW_TYPE_EXTENSION_POPUP (Some a_browser)" "Some 2"]
    OpenURLFromTab_outside_whitelist
      [of "\<lparr>url = ''http://a/'', disposition = OTHER_DISPOSITION 3\<rparr>"
          "a_host VIEW_TYPE_EXTENSION_DIALOG None" None]
  by simp

text \<open>
  C2. For a disposition of the allow-list, on a host that has its view:
  \<^verbatim>\<open>OpenURLFromTab\<close> returns \<^verbatim>\<open>NULL\<close> and calls nothing when the view has no
  browser; when it has one, the host calls \<^verbatim>\<open>OpenURL\<close> of that browser with the
  same parameters, once, and returns what the browser returns.
\<close>

theorem OpenURLFromTab_whitelisted:
  assumes "disposition params \<in>
             {SINGLETON_TAB, NEW_FOREGROUND_TAB, NEW_BACKGROUND_TAB, NEW_POPUP,
              NEW_WINDOW, SAVE_TO_DISK, OFF_THE_RECORD}"
    and "view h = Some v"
  shows "(browser v = None \<longrightarrow> OpenURLFromTab h source params = Inr (None, h)) \<and>
         (\<forall>b. browser v = Some b \<longrightarrow>
            OpenURLFromTab h source params =
              Inr (Browser_OpenURL b params, h\<lparr>calls := calls h @ [BrowserOpenURL params]\<rparr>))"
  using assms
  by (cases "disposition params") (auto simp: OpenURLFromTab_def call_def)

theorem OpenURLFromTab_whitelisted_witness:
  "OpenURLFromTab (a_host VIEW_TYPE_EXTENSION_DIALOG None) (Some 2)
       \<lparr>url = ''http://a/'', disposition = NEW_FOREGROUND_TAB\<rparr>
     = Inr (None, a_host VIEW_TYPE_EXTENSION_DIALOG None)
   \<and> OpenURLFromTab (a_host VIEW_TYPE_EXTENSION_POPUP (Some a_browser)) (Some 2)
       \<lparr>url = ''http://a/'', disposition = NEW_WINDOW\<rparr>
     = Inr (Some 7,
         (a_host VIEW_TYPE_EXTENSION_POPUP (Some a_browser))
           \<lparr>calls := [BrowserOpenURL \<lparr>url = ''http://a/'', disposition = NEW_WINDOW\<rparr>]\<rparr>)"
  using
    OpenURLFromTab_whitelisted
      [of "\<lparr>url = ''http://a/'', disposition = NEW_FOREGROUND_TAB\<rparr>"
          "a_host VIEW_TYPE_EXTENSION_DIALOG None" "\<lparr>browser = None\<rparr>" "Some 2"]
    OpenURLFromTab_whitelisted
      [of "\<lparr>url = ''http://a/'', disposition = NEW_WINDOW\<rparr>"
          "a_host VIEW_TYPE_EXTENSION_POPUP (Some a_browser)" "\<lparr>browser = Some a_browser\<rparr>"
          "Some 2"]
  by (simp add: a_host_def a_browser_def)

subsection \<open>Keyboard events\<close>

text \<open>
  C3. \<^verbatim>\<open>PreHandleKeyboardEvent\<close> is a dispatch over three cases. (1) On a popup
  host, for a raw key-down of Escape, it writes \<open>True\<close> to \<^verbatim>\<open>*is_keyboard_shortcut\<close>
  and returns \<open>False\<close>; the host is unchanged, so the browser was not called, and the
  view is not read. (2) For any other event or host type, when the view has a browser,
  the host calls \<^verbatim>\<open>PreHandleKeyboardEvent\<close> of the browser with the same arguments and
  returns its result and what it left in \<^verbatim>\<open>*is_keyboard_shortcut\<close>. (3) When the view
  has no browser, it writes \<open>False\<close> and returns \<open>False\<close>, calling nothing. In (1) and
  (3) the pointer \<^verbatim>\<open>is_keyboard_shortcut\<close> is not null; in (2) and (3) the host has its
  view.
\<close>

theorem PreHandleKeyboardEvent_dispatch:
  "(extension_host_type h = VIEW_TYPE_EXTENSION_POPUP \<and> type event = RawKeyDown \<and>
      windowsKeyCode event = VKEY_ESCAPE \<and> is_keyboard_shortcut = Some s \<longrightarrow>
      PreHandleKeyboardEvent bld h source event is_keyboard_shortcut
        = Inr (False, Some True, h))
   \<and> (\<not> (extension_host_type h = VIEW_TYPE_EXTENSION_POPUP \<and> type event = RawKeyDown \<and>
          windowsKeyCode event = VKEY_ESCAPE) \<and>
      view h = Some v \<and> browser v = Some b \<longrightarrow>
      PreHandleKeyboardEvent bld h source event is_keyboard_shortcut
        = Inr (fst (Browser_PreHandleKeyboardEvent b source event is_keyboard_shortcut),
               snd (Browser_PreHandleKeyboardEvent b source event is_keyboard_shortcut),
               h\<lparr>calls := calls h @ [BrowserPreHandleKeyboardEvent source event]\<rparr>))
   \<and> (\<not> (extension_host_type h = VIEW_TYPE_EXTENSION_POPUP \<and> type event = RawKeyDown \<and>
          windowsKeyCode event = VKEY_ESCAPE) \<and>
      view h = Some v \<and> browser v = None \<and> is_keyboard_shortcut = Some s \<longrightarrow>
      PreHandleKeyboardEvent bld h source event is_keyboard_shortcut
        = Inr (False, Some False, h))"
  by (auto simp: PreHandleKeyboardEvent_def call_def split: prod.splits)

theorem PreHandleKeyboardEvent_dispatch_witness:
  "PreHandleKeyboardEvent a_build (a_host VIEW_TYPE_EXTENSION_POPUP (Some a_browser)) (Some 2)
       (key RawKeyDown VKEY_ESCAPE) (Some False)
     = Inr (False, Some True, a_host VIEW_TYPE_EXTENSION_POPUP (Some a_browser))
   \<and> PreHandleKeyboardEvent a_build (a_host VIEW_TYPE_EXTENSION_POPUP (Some a_browser)) (Some 2)
       (key RawKeyDown (VKEY_ESCAPE + 1)) (Some False)
     = Inr (True, Some True,
         (a_host VIEW_TYPE_EXTENSION_POPUP (Some a_browser))
           \<lparr>calls := [BrowserPreHandleKeyboardEvent (Some 2) (key RawKeyDown (VKEY_ESCAPE + 1))]\<rparr>)
   \<and> PreHandleKeyboardEvent a_build (a_host VIEW_TYPE_EXTENSION_DIALOG None) (Some 2)
       (key RawKeyDown VKEY_ESCAPE) (Some True)
     = Inr (False, Some False, a_host VIEW_TYPE_EXTENSION_DIALOG None)"
  using
    PreHandleKeyboardEvent_dispatch
      [of "a_host VIEW_TYPE_EXTENSION_POPUP (Some a_browser)" "key RawKeyDown VKEY_ESCAPE"
          "Some False" False a_build "Some 2" "\<lparr>browser = Some a_browser\<rparr>" a_browser]
    PreHandleKeyboardEvent_dispatch
      [of "a_host VIEW_TYPE_EXTENSION_POPUP (Some a_browser)" "key RawKeyDown (VKEY_ESCAPE + 1)"
          "Some False" False a_build "Some 2" "\<lparr>browser = Some a_browser\<rparr>" a_browser]
    PreHandleKeyboardEvent_dispatch
      [of "a_host VIEW_TYPE_EXTENSION_DIALOG None" "key RawKeyDown VKEY_ESCAPE"
          "Some True" True a_build "Some 2" "\<lparr>browser = None\<rparr>" a_browser]
  by (simp add: a_host_def a_browser_def key_def)

text \<open>
  C4. On a popup host, \<^verbatim>\<open>HandleKeyboardEvent\<close> for a raw key-down of Escape closes
  the host and returns: the one call it makes is \<^verbatim>\<open>Close\<close>, and neither the browser
  nor the view is handed the event. For every other event, and on every host that is
  not a popup, it does what \<^verbatim>\<open>UnhandledKeyboardEvent\<close> does.
\<close>

theorem HandleKeyboardEvent_dispatch:
  "(extension_host_type h = VIEW_TYPE_EXTENSION_POPUP \<and> type event = RawKeyDown \<and>
      windowsKeyCode event = VKEY_ESCAPE \<longrightarrow>
      HandleKeyboardEvent bld h source event = Inr (h\<lparr>calls := calls h @ [HostClose]\<rparr>))
   \<and> (\<not> (extension_host_type h = VIEW_TYPE_EXTENSION_POPUP \<and> type event = RawKeyDown \<and>
          windowsKeyCode event = VKEY_ESCAPE) \<longrightarrow>
      HandleKeyboardEvent bld h source event = UnhandledKeyboardEvent bld h source event)"
  by (simp add: HandleKeyboardEvent_def Close_def call_def)

theorem HandleKeyboardEvent_dispatch_witness:
  "HandleKeyboardEvent a_build (a_host VIEW_TYPE_EXTENSION_POPUP (Some a_browser)) (Some 2)
       (key RawKeyDown VKEY_ESCAPE)
     = Inr ((a_host VIEW_TYPE_EXTENSION_POPUP (Some a_browser))\<lparr>calls := [HostClose]\<rparr>)
   \<and> HandleKeyboardEvent a_build (a_host VIEW_TYPE_EXTENSION_INFOBAR (Some a_browser)) (Some 2)
       (key RawKeyDown VKEY_ESCAPE)
     = Inr ((a_host VIEW_TYPE_EXTENSION_INFOBAR (Some a_browser))
              \<lparr>calls := [BrowserHandleKeyboardEvent (Some 2) (key RawKeyDown VKEY_ESCAPE)]\<rparr>)
   \<and> HandleKeyboardEvent a_build (a_host VIEW_TYPE_EXTENSION_POPUP None) (Some 2)
       (key RawKeyDown (VKEY_ESCAPE + 1))
     = Inr ((a_host VIEW_TYPE_EXTENSION_POPUP None)
              \<lparr>calls := [ViewHandleKeyboardEvent (key RawKeyDown (VKEY_ESCAPE + 1))]\<rparr>)"
  using
    HandleKeyboardEvent_dispatch
      [of "a_host VIEW_TYPE_EXTENSION_POPUP (Some a_browser)" "key RawKeyDown VKEY_ESCAPE"
          a_build "Some 2"]
    HandleKeyboardEvent_dispatch
      [of "a_host VIEW_TYPE_EXTENSION_INFOBAR (Some a_browser)" "key RawKeyDown VKEY_ESCAPE"
          a_build "Some 2"]
    HandleKeyboardEvent_dispatch
      [of "a_host VIEW_TYPE_EXTENSION_POPUP None" "key RawKeyDown (VKEY_ESCAPE + 1)"
          a_build "Some 2"]
  by (simp add: a_host_def a_build_def key_def UnhandledKeyboardEvent_def call_def)

text \<open>
  C10. On a popup host, an Escape event that is not a raw key-down (a key-up, a
  character event) is not the close shortcut. \<^verbatim>\<open>PreHandleKeyboardEvent\<close> leaves its
  first branch aside: with a browser it returns what the browser answers, without one
  it writes \<open>False\<close> to \<^verbatim>\<open>*is_keyboard_shortcut\<close> and returns \<open>False\<close>.
  \<^verbatim>\<open>HandleKeyboardEvent\<close> does what \<^verbatim>\<open>UnhandledKeyboardEvent\<close> does, and the host it
  returns is never the closed one.
\<close>

theorem Escape_not_RawKeyDown_on_popup:
  assumes "extension_host_type h = VIEW_TYPE_EXTENSION_POPUP"
    and "windowsKeyCode event = VKEY_ESCAPE"
    and "type event \<noteq> RawKeyDown"
  shows "(view h = Some v \<and> browser v = Some b \<longrightarrow>
            PreHandleKeyboardEvent bld h source event is_keyboard_shortcut
              = Inr (fst (Browser_PreHandleKeyboardEvent b source event is_keyboard_shortcut),
                     snd (Browser_PreHandleKeyboardEvent b source event is_keyboard_shortcut),
                     h\<lparr>calls := calls h @ [BrowserPreHandleKeyboardEvent source event]\<rparr>))
       \<and> (view h = Some v \<and> browser v = None \<and> is_keyboard_shortcut = Some s \<longrightarrow>
            PreHandleKeyboardEvent bld h source event is_keyboard_shortcut
              = Inr (False, Some False, h))
       \<and> HandleKeyboardEvent bld h source event = UnhandledKeyboardEvent bld h source event
       \<and> HandleKeyboardEvent bld h source event \<noteq> Inr (Close h)"
proof -
  have not_closed: "UnhandledKeyboardEvent bld h source event \<noteq> Inr (Close h)"
  proof
    assume "UnhandledKeyboardEvent bld h source event = Inr (Close h)"
    then have "calls h @ [BrowserHandleKeyboardEvent source event] = calls h @ [HostClose]
        \<or> calls h @ [ViewHandleKeyboardEvent event] = calls h @ [HostClose]
        \<or> calls h = calls h @ [HostClose]"
      by (auto simp: UnhandledKeyboardEvent_def Close_def call_def
          split: option.splits if_splits dest: arg_cong [where f = calls])
    then show False by simp
  qed
  have handle: "HandleKeyboardEvent bld h source event = UnhandledKeyboardEvent bld h source event"
    using assms by (simp add: HandleKeyboardEvent_def)
  have pre_browser: "view h = Some v \<and> browser v = Some b \<longrightarrow>
      PreHandleKeyboardEvent bld h source event is_keyboard_shortcut
        = Inr (fst (Browser_PreHandleKeyboardEvent b source event is_keyboard_shortcut),
               snd (Browser_PreHandleKeyboardEvent b source event is_keyboard_shortcut),
               h\<lparr>calls := calls h @ [BrowserPreHandleKeyboardEvent source event]\<rparr>)"
    using assms by (auto simp: PreHandleKeyboardEvent_def call_def split: prod.splits)
  have pre_none: "view h = Some v \<and> browser v = None \<and> is_keyboard_shortcut = Some s \<longrightarrow>
      PreHandleKeyboardEvent bld h source event is_keyboard_shortcut
        = Inr (False, Some False, h)"
    using assms by (auto simp: PreHandleKeyboardEvent_def)
  from pre_browser pre_none handle not_closed show ?thesis by simp
qed

theorem Escape_not_RawKeyDown_on_popup_witness:
  "PreHandleKeyboardEvent a_build (a_host VIEW_TYPE_EXTENSION_POPUP (Some a_browser)) (Some 2)
       (key KeyUp VKEY_ESCAPE) (Some False)
     = Inr (True, Some True,
         (a_host VIEW_TYPE_EXTENSION_POPUP (Some a_browser))
           \<lparr>calls := [BrowserPreHandleKeyboardEvent (Some 2) (key KeyUp VKEY_ESCAPE)]\<rparr>)
   \<and> PreHandleKeyboardEvent a_build (a_host VIEW_TYPE_EXTENSION_POPUP None) (Some 2)
       (key Char VKEY_ESCAPE) (Some True)
     = Inr (False, Some False, a_host VIEW_TYPE_EXTENSION_POPUP None)
   \<and> HandleKeyboardEvent a_build (a_host VIEW_TYPE_EXTENSION_POPUP (Some a_browser)) (Some 2)
       (key KeyUp VKEY_ESCAPE)
     = Inr ((a_host VIEW_TYPE_EXTENSION_POPUP (Some a_browser))
              \<lparr>calls := [BrowserHandleKeyboardEvent (Some 2) (key KeyUp VKEY_ESCAPE)]\<rparr>)
   \<and> HandleKeyboardEvent a_build (a_host VIEW_TYPE_EXTENSION_POPUP None) (Some 2)
       (key Char VKEY_ESCAPE)
     \<noteq> Inr (Close (a_host VIEW_TYPE_EXTENSION_POPUP None))"
  using
    Escape_not_RawKeyDown_on_popup
      [of "a_host VIEW_TYPE_EXTENSION_POPUP (Some a_browser)" "key KeyUp VKEY_ESCAPE"
          "\<lparr>browser = Some a_browser\<rparr>" a_browser a_build "Some 2" "Some False" False]
    Escape_not_RawKeyDown_on_popup
      [of "a_host VIEW_TYPE_EXTENSION_POPUP None" "key Char VKEY_ESCAPE"
          "\<lparr>browser = None\<rparr>" a_browser a_build "Some 2" "Some True" True]
  by (simp add: a_host_def a_browser_def a_build_def key_def UnhandledKeyboardEvent_def
      Close_def call_def)

subsection \<open>Visible contents, style sheet, background page\<close>

text \<open>
  C6. \<^verbatim>\<open>GetVisibleWebContents\<close> returns the associated contents whenever they are
  set, on a host of any type. When they are not set, a popup host returns its own
  contents (\<^verbatim>\<open>host_contents()\<close>) and every other host, a dialog or an infobar among
  them, returns \<^verbatim>\<open>NULL\<close>; so a host that has contents of its own returns them if and
  only if it is a popup.
\<close>

theorem GetVisibleWebContents_cases:
  "(associated_web_contents h = Some c \<longrightarrow> GetVisibleWebContents h = Some c)
   \<and> (associated_web_contents h = None \<and> extension_host_type h = VIEW_TYPE_EXTENSION_POPUP \<longrightarrow>
        GetVisibleWebContents h = host_contents h)
   \<and> (associated_web_contents h = None \<and> extension_host_type h \<noteq> VIEW_TYPE_EXTENSION_POPUP \<longrightarrow>
        GetVisibleWebContents h = None)
   \<and> (associated_web_contents h = None \<and> host_contents h \<noteq> None \<longrightarrow>
        (GetVisibleWebContents h = host_contents h)
          = (extension_host_type h = VIEW_TYPE_EXTENSION_POPUP))"
  by (auto simp: GetVisibleWebContents_def)

theorem GetVisibleWebContents_cases_witness:
  "GetVisibleWebContents ((a_host VIEW_TYPE_EXTENSION_DIALOG None)\<lparr>associated_web_contents := Some 5\<rparr>)
     = Some 5
   \<and> GetVisibleWebContents (a_host VIEW_TYPE_EXTENSION_POPUP None) = Some 1
   \<and> GetVisibleWebContents (a_host VIEW_TYPE_EXTENSION_DIALOG None) = None
   \<and> GetVisibleWebContents (a_host VIEW_TYPE_EXTENSION_INFOBAR None) = None"
  using
    GetVisibleWebContents_cases
      [of "(a_host VIEW_TYPE_EXTENSION_DIALOG None)\<lparr>associated_web_contents := Some 5\<rparr>" 5]
    GetVisibleWebContents_cases [of "a_host VIEW_TYPE_EXTENSION_POPUP None" 5]
    GetVisibleWebContents_cases [of "a_host VIEW_TYPE_EXTENSION_DIALOG None" 5]
    GetVisibleWebContents_cases [of "a_host VIEW_TYPE_EXTENSION_INFOBAR None" 5]
  by (simp add: a_host_def)

text \<open>What one notification does, and what \<open>n\<close> of them do on an infobar host.\<close>

lemma OnDocumentAvailable_infobar:
  "extension_host_type h = VIEW_TYPE_EXTENSION_INFOBAR \<Longrightarrow>
     OnDocumentAvailable bld h =
       h\<lparr>calls := calls h @
            [RenderViewHostInsertCSS [] (GetRawDataResource bld IDR_EXTENSIONS_INFOBAR_CSS)]\<rparr>"
  by (simp add: OnDocumentAvailable_def InsertInfobarCSS_def call_def)

lemma OnDocumentAvailable_other:
  "extension_host_type h \<noteq> VIEW_TYPE_EXTENSION_INFOBAR \<Longrightarrow> OnDocumentAvailable bld h = h"
  by (simp add: OnDocumentAvailable_def)

lemma OnDocumentAvailable_funpow_infobar:
  "extension_host_type h = VIEW_TYPE_EXTENSION_INFOBAR \<Longrightarrow>
     extension_host_type ((OnDocumentAvailable bld ^^ n) h) = VIEW_TYPE_EXTENSION_INFOBAR \<and>
     calls ((OnDocumentAvailable bld ^^ n) h) =
       calls h @
         replicate n (RenderViewHostInsertCSS [] (GetRawDataResource bld IDR_EXTENSIONS_INFOBAR_CSS))"
proof (induction n)
  case 0
  then show ?case by simp
next
  case (Suc n)
  then show ?case
    by (simp add: OnDocumentAvailable_infobar replicate_append_same)
qed

text \<open>
  C7. \<^verbatim>\<open>OnDocumentAvailable\<close> injects the infobar style sheet, the raw data of the
  resource \<^verbatim>\<open>IDR_EXTENSIONS_INFOBAR_CSS\<close>, when and only when the host is an
  infobar: on an infobar host each notification makes exactly one call of
  \<^verbatim>\<open>InsertCSS\<close> (so \<open>n\<close> notifications make \<open>n\<close> calls), and on any other host
  the notification changes nothing.
\<close>

theorem OnDocumentAvailable_injects_iff_infobar:
  "(extension_host_type h = VIEW_TYPE_EXTENSION_INFOBAR \<longrightarrow>
      OnDocumentAvailable bld h =
        h\<lparr>calls := calls h @
             [RenderViewHostInsertCSS [] (GetRawDataResource bld IDR_EXTENSIONS_INFOBAR_CSS)]\<rparr>
      \<and> calls ((OnDocumentAvailable bld ^^ n) h) =
          calls h @
            replicate n
              (RenderViewHostInsertCSS [] (GetRawDataResource bld IDR_EXTENSIONS_INFOBAR_CSS)))
   \<and> (extension_host_type h \<noteq> VIEW_TYPE_EXTENSION_INFOBAR \<longrightarrow> OnDocumentAvailable bld h = h)"
proof (intro conjI impI)
  assume t: "extension_host_type h = VIEW_TYPE_EXTENSION_INFOBAR"
  show "OnDocumentAvailable bld h =
        h\<lparr>calls := calls h @
             [RenderViewHostInsertCSS [] (GetRawDataResource bld IDR_EXTENSIONS_INFOBAR_CSS)]\<rparr>"
    by (rule OnDocumentAvailable_infobar [OF t])
  show "calls ((OnDocumentAvailable bld ^^ n) h) =
          calls h @
            replicate n
              (RenderViewHostInsertCSS [] (GetRawDataResource bld IDR_EXTENSIONS_INFOBAR_CSS))"
    using OnDocumentAvailable_funpow_infobar [OF t] by simp
next
  assume "extension_host_type h \<noteq> VIEW_TYPE_EXTENSION_INFOBAR"
  then show "OnDocumentAvailable bld h = h" by (rule OnDocumentAvailable_other)
qed

theorem OnDocumentAvailable_injects_iff_infobar_witness:
  "OnDocumentAvailable a_build (a_host VIEW_TYPE_EXTENSION_INFOBAR None)
     = (a_host VIEW_TYPE_EXTENSION_INFOBAR None)\<lparr>calls := [RenderViewHostInsertCSS [] ''css'']\<rparr>
   \<and> calls ((OnDocumentAvailable a_build ^^ 3) (a_host VIEW_TYPE_EXTENSION_INFOBAR None))
     = [RenderViewHostInsertCSS [] ''css'', RenderViewHostInsertCSS [] ''css'',
        RenderViewHostInsertCSS [] ''css'']
   \<and> OnDocumentAvailable a_build (a_host VIEW_TYPE_EXTENSION_POPUP None)
     = a_host VIEW_TYPE_EXTENSION_POPUP None
   \<and> OnDocumentAvailable a_build (a_host VIEW_TYPE_EXTENSION_DIALOG None)
     = a_host VIEW_TYPE_EXTENSION_DIALOG None"
proof -
  have i: "extension_host_type (a_host VIEW_TYPE_EXTENSION_INFOBAR None) = VIEW_TYPE_EXTENSION_INFOBAR"
    and p: "extension_host_type (a_host VIEW_TYPE_EXTENSION_POPUP None) \<noteq> VIEW_TYPE_EXTENSION_INFOBAR"
    and d: "extension_host_type (a_host VIEW_TYPE_EXTENSION_DIALOG None) \<noteq> VIEW_TYPE_EXTENSION_INFOBAR"
    and c: "calls (a_host VIEW_TYPE_EXTENSION_INFOBAR None) = []"
    and g: "GetRawDataResource a_build IDR_EXTENSIONS_INFOBAR_CSS = ''css''"
    by (simp_all add: a_host_def a_build_def)
  have r: "replicate 3 x = [x, x, x]" for x :: Call
    by (simp add: numeral_3_eq_3)
  from OnDocumentAvailable_injects_iff_infobar [of "a_host VIEW_TYPE_EXTENSION_INFOBAR None" a_build 3]
    OnDocumentAvailable_injects_iff_infobar [of "a_host VIEW_TYPE_EXTENSION_POPUP None" a_build 3]
    OnDocumentAvailable_injects_iff_infobar [of "a_host VIEW_TYPE_EXTENSION_DIALOG None" a_build 3]
  show ?thesis
    by (simp only: i p d c g r append_Nil not_False_eq_True simp_thms)
qed

text \<open>
  C8. On a host that has its view, \<^verbatim>\<open>IsBackgroundPage\<close> returns \<open>False\<close>, whatever
  the type and the rest of the state of the host and whatever the build. The
  \<^verbatim>\<open>DCHECK\<close> on the view is all it asks for: the one way not to get \<open>False\<close> is the
  failure of that \<^verbatim>\<open>DCHECK\<close>, in a build that has it, on a host without a view.
\<close>

theorem IsBackgroundPage_false:
  "(view h \<noteq> None \<longrightarrow> IsBackgroundPage bld h = Inr False)
   \<and> (IsBackgroundPage bld h \<noteq> Inr False \<longrightarrow>
        view h = None \<and> dcheck_is_on bld \<and> IsBackgroundPage bld h = Inl DCHECK_failure)"
  by (simp add: IsBackgroundPage_def)

theorem IsBackgroundPage_false_witness:
  "IsBackgroundPage a_build (a_host VIEW_TYPE_EXTENSION_POPUP (Some a_browser)) = Inr False
   \<and> IsBackgroundPage a_build (a_host VIEW_TYPE_EXTENSION_DIALOG None) = Inr False
   \<and> IsBackgroundPage a_build ((a_host VIEW_TYPE_EXTENSION_INFOBAR None)\<lparr>view := None\<rparr>)
     = Inl DCHECK_failure"
proof -
  have no_view:
    "IsBackgroundPage a_build ((a_host VIEW_TYPE_EXTENSION_INFOBAR None)\<lparr>view := None\<rparr>)
       \<noteq> Inr False"
    by (simp add: IsBackgroundPage_def a_build_def)
  from IsBackgroundPage_false [of "a_host VIEW_TYPE_EXTENSION_POPUP (Some a_browser)" a_build]
    IsBackgroundPage_false [of "a_host VIEW_TYPE_EXTENSION_DIALOG None" a_build]
    IsBackgroundPage_false [of "(a_host VIEW_TYPE_EXTENSION_INFOBAR None)\<lparr>view := None\<rparr>" a_build]
    no_view
  show ?thesis
    by (simp add: a_host_def)
qed

subsection \<open>The associated contents and their observer\<close>

text \<open>What \<^verbatim>\<open>SetAssociatedWebContents\<close> leaves in each member of the host.\<close>

lemma SetAssociatedWebContents_associated:
  "associated_web_contents (SetAssociatedWebContents wc h) = wc"
  by (cases wc; cases "associated_web_contents_observer h")
    (simp_all add: SetAssociatedWebContents_def new_AssociatedWebContentsObserver_def
      associated_web_contents_observer_reset_def call_def)

lemma SetAssociatedWebContents_observer:
  "associated_web_contents_observer (SetAssociatedWebContents wc h)
     = map_option (\<lambda>c. \<lparr>web_contents = c\<rparr>) wc"
  by (cases wc; cases "associated_web_contents_observer h")
    (simp_all add: SetAssociatedWebContents_def new_AssociatedWebContentsObserver_def
      associated_web_contents_observer_reset_def call_def)

lemma SetAssociatedWebContents_calls:
  "calls (SetAssociatedWebContents wc h)
     = calls h
       @ (case wc of None \<Rightarrow> [] | Some c \<Rightarrow> [WebContentsAddObserver c])
       @ (case associated_web_contents_observer h of
            None \<Rightarrow> []
          | Some old \<Rightarrow> [WebContentsRemoveObserver (web_contents old)])"
  by (cases wc; cases "associated_web_contents_observer h")
    (simp_all add: SetAssociatedWebContents_def new_AssociatedWebContentsObserver_def
      associated_web_contents_observer_reset_def call_def)

lemma SetAssociatedWebContents_frame:
  "extension_host_type (SetAssociatedWebContents wc h) = extension_host_type h
   \<and> host_contents (SetAssociatedWebContents wc h) = host_contents h
   \<and> view (SetAssociatedWebContents wc h) = view h"
  by (cases wc; cases "associated_web_contents_observer h")
    (simp_all add: SetAssociatedWebContents_def new_AssociatedWebContentsObserver_def
      associated_web_contents_observer_reset_def call_def)

lemma observes_associated_SetAssociatedWebContents:
  "observes_associated (SetAssociatedWebContents wc h)"
  by (cases wc)
    (simp_all add: observes_associated_def SetAssociatedWebContents_associated
      SetAssociatedWebContents_observer)

lemma DestroyWebContents_unobserved:
  "associated_web_contents_observer h = None \<Longrightarrow> DestroyWebContents wc h = h"
  by (simp add: DestroyWebContents_def)

lemma DestroyWebContents_other:
  "observes_associated h \<Longrightarrow> associated_web_contents h \<noteq> Some wc \<Longrightarrow>
     DestroyWebContents wc h = h"
  by (auto simp: DestroyWebContents_def observes_associated_def split: option.splits)

lemma DestroyWebContents_associated:
  assumes "observes_associated h" and "associated_web_contents h = Some wc"
  shows "DestroyWebContents wc h = SetAssociatedWebContents None h"
    and "associated_web_contents_observer h = Some \<lparr>web_contents = wc\<rparr>"
  using assms
  by (auto simp: DestroyWebContents_def WebContentsDestroyed_def observes_associated_def
      split: option.splits)

lemma observes_associated_DestroyWebContents:
  "observes_associated h \<Longrightarrow> observes_associated (DestroyWebContents wc h)"
  by (cases "associated_web_contents h = Some wc")
    (simp_all add: DestroyWebContents_associated DestroyWebContents_other
      observes_associated_SetAssociatedWebContents)

lemma observes_associated_new:
  "new_ExtensionViewHost bld contents host_type = Inr h \<Longrightarrow> observes_associated h"
  by (auto simp: new_ExtensionViewHost_def observes_associated_def split: if_splits)

lemma observes_associated_call:
  "observes_associated (call c h) = observes_associated h"
  by (simp add: call_def observes_associated_def)

lemma observes_associated_CreateView:
  "CreateView bld b h = Inr h' \<Longrightarrow> observes_associated h' = observes_associated h"
  by (auto simp: CreateView_def observes_associated_def split: Toolkit.splits if_splits)

lemma observes_associated_OnDocumentAvailable:
  "observes_associated (OnDocumentAvailable bld h) = observes_associated h"
  by (simp add: OnDocumentAvailable_def InsertInfobarCSS_def observes_associated_call)

lemma observes_associated_UnhandledKeyboardEvent:
  "UnhandledKeyboardEvent bld h source event = Inr h' \<Longrightarrow>
     observes_associated h' = observes_associated h"
  by (auto simp: UnhandledKeyboardEvent_def observes_associated_call
      split: option.splits if_splits)

lemma observes_associated_HandleKeyboardEvent:
  "HandleKeyboardEvent bld h source event = Inr h' \<Longrightarrow>
     observes_associated h' = observes_associated h"
  by (auto simp: HandleKeyboardEvent_def Close_def observes_associated_call
      split: if_splits dest: observes_associated_UnhandledKeyboardEvent)

lemma observes_associated_PreHandleKeyboardEvent:
  "PreHandleKeyboardEvent bld h source event p = Inr (r, q, h') \<Longrightarrow>
     observes_associated h' = observes_associated h"
  by (auto simp: PreHandleKeyboardEvent_def observes_associated_call
      split: option.splits if_splits prod.splits)

lemma observes_associated_OpenURLFromTab:
  "OpenURLFromTab h source params = Inr (r, h') \<Longrightarrow>
     observes_associated h' = observes_associated h"
  by (cases "disposition params")
    (auto simp: OpenURLFromTab_def observes_associated_call split: option.splits)

text \<open>
  C5. The reference to the associated contents is weak. On a host whose observer is on
  its associated contents \<open>x\<close> (as it is after every \<^verbatim>\<open>SetAssociatedWebContents\<close>),
  the destruction of \<open>x\<close> clears the reference, so \<^verbatim>\<open>GetAssociatedWebContents\<close>
  returns \<^verbatim>\<open>NULL\<close> afterwards, and the observer is gone. Setting the reference to
  \<open>x\<close> and then to \<^verbatim>\<open>NULL\<close> clears it and takes the observer off \<open>x\<close>; after
  that, the destruction of \<open>x\<close>, or of any other contents, leaves the host exactly as
  it was.
\<close>

theorem associated_web_contents_weak:
  "(observes_associated h \<and> GetAssociatedWebContents h = Some x \<longrightarrow>
      GetAssociatedWebContents (DestroyWebContents x h) = None
      \<and> associated_web_contents_observer (DestroyWebContents x h) = None
      \<and> calls (DestroyWebContents x h) = calls h @ [WebContentsRemoveObserver x])
   \<and> GetAssociatedWebContents (DestroyWebContents x (SetAssociatedWebContents (Some x) h)) = None
   \<and> GetAssociatedWebContents
        (SetAssociatedWebContents None (SetAssociatedWebContents (Some x) h)) = None
   \<and> associated_web_contents_observer
        (SetAssociatedWebContents None (SetAssociatedWebContents (Some x) h)) = None
   \<and> calls (SetAssociatedWebContents None (SetAssociatedWebContents (Some x) h))
       = calls (SetAssociatedWebContents (Some x) h) @ [WebContentsRemoveObserver x]
   \<and> DestroyWebContents x (SetAssociatedWebContents None (SetAssociatedWebContents (Some x) h))
       = SetAssociatedWebContents None (SetAssociatedWebContents (Some x) h)
   \<and> DestroyWebContents y (SetAssociatedWebContents None h) = SetAssociatedWebContents None h"
proof -
  have destroyed: "GetAssociatedWebContents (DestroyWebContents x g) = None
      \<and> associated_web_contents_observer (DestroyWebContents x g) = None
      \<and> calls (DestroyWebContents x g) = calls g @ [WebContentsRemoveObserver x]"
    if "observes_associated g" and "GetAssociatedWebContents g = Some x" for g
  proof -
    from that have a: "associated_web_contents g = Some x"
      by (simp add: GetAssociatedWebContents_def)
    from DestroyWebContents_associated [OF that(1) a] show ?thesis
      by (simp add: GetAssociatedWebContents_def SetAssociatedWebContents_associated
          SetAssociatedWebContents_observer SetAssociatedWebContents_calls)
  qed
  have set_x: "observes_associated (SetAssociatedWebContents (Some x) h)"
    "GetAssociatedWebContents (SetAssociatedWebContents (Some x) h) = Some x"
    by (simp_all add: observes_associated_SetAssociatedWebContents GetAssociatedWebContents_def
        SetAssociatedWebContents_associated)
  have cleared: "associated_web_contents_observer (SetAssociatedWebContents None g) = None" for g
    by (simp add: SetAssociatedWebContents_observer)
  show ?thesis
    using destroyed [of h] destroyed [OF set_x]
    by (simp add: GetAssociatedWebContents_def SetAssociatedWebContents_associated
        SetAssociatedWebContents_observer SetAssociatedWebContents_calls
        DestroyWebContents_unobserved [OF cleared])
qed

theorem associated_web_contents_weak_witness:
  "observes_associated (SetAssociatedWebContents (Some 5) (a_host VIEW_TYPE_EXTENSION_POPUP None))
   \<and> GetAssociatedWebContents
        (SetAssociatedWebContents (Some 5) (a_host VIEW_TYPE_EXTENSION_POPUP None)) = Some 5
   \<and> GetAssociatedWebContents
        (DestroyWebContents 5
          (SetAssociatedWebContents (Some 5) (a_host VIEW_TYPE_EXTENSION_POPUP None))) = None
   \<and> calls
        (DestroyWebContents 5
          (SetAssociatedWebContents (Some 5) (a_host VIEW_TYPE_EXTENSION_POPUP None)))
       = [WebContentsAddObserver 5, WebContentsRemoveObserver 5]"
proof -
  have o: "observes_associated
      (SetAssociatedWebContents (Some 5) (a_host VIEW_TYPE_EXTENSION_POPUP None))"
    by (simp add: observes_associated_def SetAssociatedWebContents_def
        new_AssociatedWebContentsObserver_def associated_web_contents_observer_reset_def
        call_def a_host_def)
  have g: "GetAssociatedWebContents
      (SetAssociatedWebContents (Some 5) (a_host VIEW_TYPE_EXTENSION_POPUP None)) = Some 5"
    by (simp add: GetAssociatedWebContents_def SetAssociatedWebContents_def
        new_AssociatedWebContentsObserver_def associated_web_contents_observer_reset_def
        call_def a_host_def)
  have c: "calls (SetAssociatedWebContents (Some 5) (a_host VIEW_TYPE_EXTENSION_POPUP None))
      = [WebContentsAddObserver 5]"
    by (simp add: SetAssociatedWebContents_def
        new_AssociatedWebContentsObserver_def associated_web_contents_observer_reset_def
        call_def a_host_def)
  from associated_web_contents_weak
      [of "SetAssociatedWebContents (Some 5) (a_host VIEW_TYPE_EXTENSION_POPUP None)" 5]
    o g c
  show ?thesis by simp
qed

text \<open>
  C9. After every call of \<^verbatim>\<open>SetAssociatedWebContents\<close>, from any state of the host:
  the host holds an observer if and only if the associated reference is not
  \<^verbatim>\<open>NULL\<close>, and that observer is on the contents the reference points to. The call
  makes a new observer on the new contents when they are not \<^verbatim>\<open>NULL\<close>, and then
  deletes the observer the host held before, if it held one: these are the only calls
  it makes.
\<close>

theorem SetAssociatedWebContents_observes:
  "observes_associated (SetAssociatedWebContents wc h)
   \<and> associated_web_contents (SetAssociatedWebContents wc h) = wc
   \<and> (associated_web_contents_observer (SetAssociatedWebContents wc h) \<noteq> None)
       = (associated_web_contents (SetAssociatedWebContents wc h) \<noteq> None)
   \<and> associated_web_contents_observer (SetAssociatedWebContents wc h)
       = map_option (\<lambda>c. \<lparr>web_contents = c\<rparr>) wc
   \<and> calls (SetAssociatedWebContents wc h)
       = calls h
         @ (case wc of None \<Rightarrow> [] | Some c \<Rightarrow> [WebContentsAddObserver c])
         @ (case associated_web_contents_observer h of
              None \<Rightarrow> []
            | Some old \<Rightarrow> [WebContentsRemoveObserver (web_contents old)])"
  using observes_associated_SetAssociatedWebContents [of wc h]
  by (cases wc)
    (simp_all add: SetAssociatedWebContents_associated SetAssociatedWebContents_observer
      SetAssociatedWebContents_calls)

end
